theory Spec2Isabelle
  imports Complex_Main
begin

section \<open>The MCMC driver of cosmoslib (src/cosmoslib/mcmc.py)\<close>

text \<open>
  The class \<open>MCMC\<close> is embedded as a record with one field per attribute, and each method as
  a function that takes the object and returns the outcome together with the object as the
  method leaves it, also when the method raises. A Python number is an \<open>int\<close> or a \<open>float\<close>;
  floats are read as real numbers with an added negative infinity where the code produces
  one (no rounding, no NaN), and numpy arrays of floats are lists of reals. The cosmology model, the likelihood functions, the random
  number generator and the emcee library are outside the repository: they are parameters.
\<close>

subsection \<open>Values, exceptions and dictionaries\<close>

datatype exn =
    IndexError
  | KeyError
  | AttributeError
  | UnboundLocalError
  | ValueError
  | UFuncTypeError
  | Raised string
  | SystemExiting string

text \<open>
  \<open>Raised c\<close> is an exception of class \<open>c\<close> raised by external code and derived from
  Python's \<open>Exception\<close>; \<open>SystemExiting c\<close> is one derived from \<open>BaseException\<close> only
  (\<open>KeyboardInterrupt\<close>, \<open>SystemExit\<close>). \<open>except Exception\<close> catches the first kind only.
\<close>

fun is_Exception :: "exn \<Rightarrow> bool" where
  "is_Exception (SystemExiting c) = False"
| "is_Exception e = True"

datatype logprob = NegInf | Fin real

datatype pynum = PyInt int | PyFloat real

text \<open>The value of a number in a comparison with a float, or stored in a float array.\<close>

fun num_val :: "pynum \<Rightarrow> real" where
  "num_val (PyInt n) = of_int n"
| "num_val (PyFloat x) = x"

datatype pyval =
    PNum pynum
  | PStr string
  | PNone
  | PList "pynum list"
  | PTuple "pynum list"

type_synonym key = string

text \<open>A Python dict keeps insertion order, and assigning to a key it has keeps the key's place.\<close>

type_synonym 'v dict = "(key \<times> 'v) list"

fun dict_set :: "key \<Rightarrow> 'v \<Rightarrow> 'v dict \<Rightarrow> 'v dict" where
  "dict_set k v [] = [(k, v)]"
| "dict_set k v ((k', v') # d) =
     (if k' = k then (k', v) # d else (k', v') # dict_set k v d)"

definition dict_get :: "'v dict \<Rightarrow> key \<Rightarrow> exn + 'v" where
  "dict_get d k = (case map_of d k of None \<Rightarrow> Inl KeyError | Some v \<Rightarrow> Inr v)"

definition dict_keys :: "'v dict \<Rightarrow> key list" where
  "dict_keys d = map fst d"

definition list_get :: "'a list \<Rightarrow> nat \<Rightarrow> exn + 'a" where
  "list_get xs i = (if i < length xs then Inr (xs ! i) else Inl IndexError)"

subsection \<open>The external objects\<close>

text \<open>
  What the code reads of an \<open>emcee.EnsembleSampler\<close>: the flattened log-probabilities and
  the flattened chain, one row per sample.
\<close>

record emcee_sampler =
  flatlnprobability :: "logprob list"
  flatchain :: "real list list"

text \<open>
  The cosmology object has type \<open>'c\<close> and its theory spectra type \<open>'r\<close>. Its two methods
  mutate it and may raise: each returns the object as the call leaves it.
\<close>

record ('c, 'r) cosmology_model =
  set_model_params :: "pyval dict \<Rightarrow> 'c \<Rightarrow> exn option \<times> 'c"
  full_run :: "'c \<Rightarrow> (exn + 'r) \<times> 'c"

text \<open>
  The emcee calls of \<open>run\<close>, on a backend of type \<open>'b\<close>. \<open>backend_last_pos\<close> stands for the
  resume path (\<open>backend.iteration\<close>, \<open>backend.get_chain()\<close> and the slice of the last step);
  \<open>run_mcmc\<close> drives \<open>lnprob\<close>, which pushes parameters into the cosmology object, so it
  returns that object too.
\<close>

record ('b, 'c) emcee =
  HDFBackend :: "string option \<Rightarrow> exn + 'b"
  backend_last_pos :: "'b \<Rightarrow> exn + real list list"
  backend_reset :: "'b \<Rightarrow> int \<Rightarrow> nat \<Rightarrow> exn + 'b"
  EnsembleSampler :: "int \<Rightarrow> nat \<Rightarrow> 'b \<Rightarrow> exn + emcee_sampler"
  run_mcmc :: "emcee_sampler \<Rightarrow> real list list \<Rightarrow> int \<Rightarrow> 'c option
                 \<Rightarrow> exn option \<times> emcee_sampler \<times> 'c option"

text \<open>The calls made to emcee, in the order \<open>run\<close> makes them.\<close>

datatype event =
    HDFBackend_open "string option"
  | Backend_get_chain
  | Backend_reset int nat
  | EnsembleSampler_new int nat
  | Run_mcmc "real list list" int

subsection \<open>The object\<close>

record ('c, 'r) mcmc =
  n_walkers :: int
  initial_delta :: real
  sampler :: "emcee_sampler option"
  cosmology :: "'c option"
  base_params :: "pyval dict"
  fit_params :: "pynum list dict"
  fit_keys :: "key list"
  backend_file :: "string option"
  likelihoods :: "('r option \<Rightarrow> exn + real) list"
  counter :: "int option"

text \<open>\<open>__init__\<close>; the attribute \<open>_counter\<close> does not exist before \<open>run\<close> sets it.\<close>

definition init :: "int \<Rightarrow> real \<Rightarrow> string option \<Rightarrow> ('c, 'r) mcmc" where
  "init nw delta file =
     \<lparr> n_walkers = nw, initial_delta = delta, sampler = None, cosmology = None,
       base_params = [], fit_params = [], fit_keys = [], backend_file = file,
       likelihoods = [], counter = None \<rparr>"

subsection \<open>set_params\<close>

fun set_params_loop :: "pyval dict \<Rightarrow> ('c, 'r) mcmc \<Rightarrow> ('c, 'r) mcmc" where
  "set_params_loop [] m = m"
| "set_params_loop ((k, v) # ps) m =
     set_params_loop ps
       (case v of
          PList xs \<Rightarrow> m\<lparr>fit_params := dict_set k xs (fit_params m)\<rparr>
        | PTuple xs \<Rightarrow> m\<lparr>fit_params := dict_set k xs (fit_params m)\<rparr>
        | _ \<Rightarrow> m\<lparr>base_params := dict_set k v (base_params m)\<rparr>)"

definition set_params ::
  "('c, 'r) cosmology_model \<Rightarrow> pyval dict \<Rightarrow> ('c, 'r) mcmc \<Rightarrow> (exn + unit) \<times> ('c, 'r) mcmc"
where
  "set_params cm params m =
     (let m1 = set_params_loop params m;
          m2 = m1\<lparr>fit_keys := dict_keys (fit_params m1)\<rparr>
      in case cosmology m2 of
           None \<Rightarrow> (Inr (), m2)
         | Some c \<Rightarrow>
             (case set_model_params cm (base_params m2) c of
                (None, c') \<Rightarrow> (Inr (), m2\<lparr>cosmology := Some c'\<rparr>)
              | (Some e, c') \<Rightarrow> (Inl e, m2\<lparr>cosmology := Some c'\<rparr>)))"

definition reset_params :: "('c, 'r) mcmc \<Rightarrow> ('c, 'r) mcmc" where
  "reset_params m = m\<lparr>base_params := [], fit_params := [], fit_keys := []\<rparr>"

definition add_likelihood :: "('r option \<Rightarrow> exn + real) \<Rightarrow> ('c, 'r) mcmc \<Rightarrow> ('c, 'r) mcmc" where
  "add_likelihood likelihood m = m\<lparr>likelihoods := likelihoods m @ [likelihood]\<rparr>"

definition set_cosmology ::
  "('c, 'r) cosmology_model \<Rightarrow> 'c \<Rightarrow> ('c, 'r) mcmc \<Rightarrow> (exn + unit) \<times> ('c, 'r) mcmc"
where
  "set_cosmology cm c m =
     (case set_model_params cm (base_params m) c of
        (None, c') \<Rightarrow> (Inr (), m\<lparr>cosmology := Some c'\<rparr>)
      | (Some e, c') \<Rightarrow> (Inl e, m\<lparr>cosmology := Some c'\<rparr>))"

subsection \<open>lnprior\<close>

text \<open>
  The loop over \<open>enumerate(self.fit_keys)\<close>, from index \<open>i\<close>. Each round reads the three
  entries of the key's list and \<open>theta[i]\<close> before it compares, so a list shorter than three
  or a short \<open>theta\<close> raises.
\<close>

fun lnprior_loop :: "pynum list dict \<Rightarrow> real list \<Rightarrow> nat \<Rightarrow> key list \<Rightarrow> exn + logprob" where
  "lnprior_loop fp theta i [] = Inr (Fin 0)"
| "lnprior_loop fp theta i (k # ks) =
     (case dict_get fp k of
        Inl e \<Rightarrow> Inl e
      | Inr b \<Rightarrow>
          (case list_get b 0 of
             Inl e \<Rightarrow> Inl e
           | Inr lower \<Rightarrow>
               (case list_get b 1 of
                  Inl e \<Rightarrow> Inl e
                | Inr fid \<Rightarrow>
                    (case list_get b 2 of
                       Inl e \<Rightarrow> Inl e
                     | Inr upper \<Rightarrow>
                         (case list_get theta i of
                            Inl e \<Rightarrow> Inl e
                          | Inr p \<Rightarrow>
                              if p < num_val lower then Inr NegInf
                              else if p > num_val upper then Inr NegInf
                              else lnprior_loop fp theta (Suc i) ks)))))"

definition lnprior :: "real list \<Rightarrow> ('c, 'r) mcmc \<Rightarrow> exn + logprob" where
  "lnprior theta m = lnprior_loop (fit_params m) theta 0 (fit_keys m)"

subsection \<open>generate_theory\<close>

text \<open>The loop \<open>model_params[k] = theta[i]\<close> over \<open>enumerate(self.fit_keys)\<close>, from index \<open>i\<close>.\<close>

fun model_params_loop :: "real list \<Rightarrow> nat \<Rightarrow> key list \<Rightarrow> pyval dict \<Rightarrow> exn + pyval dict" where
  "model_params_loop theta i [] mp = Inr mp"
| "model_params_loop theta i (k # ks) mp =
     (case list_get theta i of
        Inl e \<Rightarrow> Inl e
      | Inr p \<Rightarrow> model_params_loop theta (Suc i) ks (dict_set k (PNum (PyFloat p)) mp))"

text \<open>
  The result is the pair \<open>(results, err)\<close> of the source: \<open>(None, True)\<close> when \<open>full_run\<close>
  raised an instance of \<open>Exception\<close>. \<open>self.cosmology.set_model_params\<close> is called outside
  the \<open>try\<close>: on \<open>None\<close> it is an \<open>AttributeError\<close>, and what it raises propagates.
\<close>

definition generate_theory ::
  "('c, 'r) cosmology_model \<Rightarrow> real list \<Rightarrow> ('c, 'r) mcmc
     \<Rightarrow> (exn + 'r option \<times> bool) \<times> ('c, 'r) mcmc"
where
  "generate_theory cm theta m =
     (case model_params_loop theta 0 (fit_keys m) [] of
        Inl e \<Rightarrow> (Inl e, m)
      | Inr model_params \<Rightarrow>
          (case cosmology m of
             None \<Rightarrow> (Inl AttributeError, m)
           | Some c \<Rightarrow>
               (case set_model_params cm model_params c of
                  (Some e, c') \<Rightarrow> (Inl e, m\<lparr>cosmology := Some c'\<rparr>)
                | (None, c') \<Rightarrow>
                    (case full_run cm c' of
                       (Inl e, c'') \<Rightarrow>
                         if is_Exception e then (Inr (None, True), m\<lparr>cosmology := Some c''\<rparr>)
                         else (Inl e, m\<lparr>cosmology := Some c''\<rparr>)
                     | (Inr results, c'') \<Rightarrow>
                         (Inr (Some results, False), m\<lparr>cosmology := Some c''\<rparr>)))))"

subsection \<open>lnprob\<close>

text \<open>
  The local variable \<open>like\<close> is \<open>None\<close> while it is unbound. \<open>like += like_func(ps_theory)\<close>
  loads \<open>like\<close> before it calls \<open>like_func\<close>, so on an unbound \<open>like\<close> the function is not
  called.
\<close>

fun like_loop ::
  "('r option \<Rightarrow> exn + real) list \<Rightarrow> 'r option \<Rightarrow> real option \<Rightarrow> exn + real option"
where
  "like_loop [] ps_theory like = Inr like"
| "like_loop (like_func # fs) ps_theory like =
     (case like of
        None \<Rightarrow> Inl UnboundLocalError
      | Some a \<Rightarrow>
          (case like_func ps_theory of
             Inl e \<Rightarrow> Inl e
           | Inr v \<Rightarrow> like_loop fs ps_theory (Some (a + v))))"

text \<open>
  \<open>like\<close> is never assigned before the loop, so the loop starts from \<open>None\<close>; after the loop
  the \<open>print\<close> and the \<open>return\<close> read \<open>like\<close> again. \<open>np.isfinite(prior)\<close> is the case
  \<open>Fin\<close>.
\<close>

definition lnprob ::
  "('c, 'r) cosmology_model \<Rightarrow> real list \<Rightarrow> ('c, 'r) mcmc \<Rightarrow> (exn + logprob) \<times> ('c, 'r) mcmc"
where
  "lnprob cm theta m =
     (case generate_theory cm theta m of
        (Inl e, m') \<Rightarrow> (Inl e, m')
      | (Inr (ps_theory, err), m') \<Rightarrow>
          if err then (Inr NegInf, m')
          else
            (case lnprior theta m' of
               Inl e \<Rightarrow> (Inl e, m')
             | Inr NegInf \<Rightarrow> (Inr NegInf, m')
             | Inr (Fin prior) \<Rightarrow>
                 (case like_loop (likelihoods m') ps_theory None of
                    Inl e \<Rightarrow> (Inl e, m')
                  | Inr None \<Rightarrow> (Inl UnboundLocalError, m')
                  | Inr (Some like) \<Rightarrow> (Inr (Fin (prior + like)), m'))))"

subsection \<open>generate_initial_pos\<close>

text \<open>The list comprehension \<open>[self.fit_params[key][1] for key in self.fit_keys]\<close>.\<close>

fun fiducials :: "pynum list dict \<Rightarrow> key list \<Rightarrow> exn + pynum list" where
  "fiducials fp [] = Inr []"
| "fiducials fp (k # ks) =
     (case dict_get fp k of
        Inl e \<Rightarrow> Inl e
      | Inr b \<Rightarrow>
          (case list_get b 1 of
             Inl e \<Rightarrow> Inl e
           | Inr fid \<Rightarrow>
               (case fiducials fp ks of
                  Inl e \<Rightarrow> Inl e
                | Inr xs \<Rightarrow> Inr (fid # xs))))"

text \<open>
  \<open>np.array\<close> of a list of Python numbers: an integer array when the list is not empty and
  holds Python ints only, a float array otherwise (integers beyond 64 bits are not modelled).
\<close>

datatype ndarray = Int_array "int list" | Float_array "real list"

fun all_ints :: "pynum list \<Rightarrow> int list option" where
  "all_ints [] = Some []"
| "all_ints (PyInt n # xs) = map_option (Cons n) (all_ints xs)"
| "all_ints (PyFloat x # xs) = None"

definition np_array :: "pynum list \<Rightarrow> ndarray" where
  "np_array xs =
     (case xs of
        [] \<Rightarrow> Float_array []
      | x # ys \<Rightarrow>
          (case all_ints xs of
             Some ns \<Rightarrow> Int_array ns
           | None \<Rightarrow> Float_array (map num_val xs)))"

text \<open>
  \<open>randn i j\<close> is component \<open>j\<close> of the \<open>i\<close>-th draw \<open>np.random.randn(ndim)\<close> of the call.
  \<open>perturb\<close> is \<open>pos += np.random.randn(ndim)*self.initial_delta*pos\<close>: the right-hand side
  is a float array, and numpy refuses to add it in place to an integer array (the cast from
  float64 to int64 is not of the same kind): \<open>UFuncTypeError\<close>.
\<close>

fun perturb :: "(nat \<Rightarrow> real) \<Rightarrow> real \<Rightarrow> ndarray \<Rightarrow> exn + real list" where
  "perturb r delta (Int_array ns) = Inl UFuncTypeError"
| "perturb r delta (Float_array pos) =
     Inr (map (\<lambda>(j, x). x + r j * delta * x) (enumerate 0 pos))"

fun initial_pos_loop ::
  "(nat \<Rightarrow> nat \<Rightarrow> real) \<Rightarrow> ('c, 'r) mcmc \<Rightarrow> nat list \<Rightarrow> exn + real list list"
where
  "initial_pos_loop randn m [] = Inr []"
| "initial_pos_loop randn m (i # is) =
     (case fiducials (fit_params m) (fit_keys m) of
        Inl e \<Rightarrow> Inl e
      | Inr fids \<Rightarrow>
          (case perturb (randn i) (initial_delta m) (np_array fids) of
             Inl e \<Rightarrow> Inl e
           | Inr pos \<Rightarrow>
               (case initial_pos_loop randn m is of
                  Inl e \<Rightarrow> Inl e
                | Inr pos0 \<Rightarrow> Inr (pos # pos0))))"

definition generate_initial_pos ::
  "(nat \<Rightarrow> nat \<Rightarrow> real) \<Rightarrow> ('c, 'r) mcmc \<Rightarrow> exn + real list list"
where
  "generate_initial_pos randn m = initial_pos_loop randn m [0..<nat (n_walkers m)]"

subsection \<open>run\<close>

text \<open>
  The first half of \<open>run\<close> after the walker count is settled: the backend is opened, then
  either read (resume) or reset and the initial positions generated. The argument \<open>pos0\<close> of
  the source is overwritten on both paths, so it is no argument here.
\<close>

definition run_setup ::
  "('b, 'c) emcee \<Rightarrow> (nat \<Rightarrow> nat \<Rightarrow> real) \<Rightarrow> bool \<Rightarrow> ('c, 'r) mcmc
     \<Rightarrow> (exn + 'b \<times> real list list) \<times> event list"
where
  "run_setup em randn resume m =
     (let ndim = length (fit_keys m) in
      case HDFBackend em (backend_file m) of
        Inl e \<Rightarrow> (Inl e, [HDFBackend_open (backend_file m)])
      | Inr backend \<Rightarrow>
          if resume then
            (case backend_last_pos em backend of
               Inl e \<Rightarrow> (Inl e, [HDFBackend_open (backend_file m), Backend_get_chain])
             | Inr pos0 \<Rightarrow>
                 (Inr (backend, pos0), [HDFBackend_open (backend_file m), Backend_get_chain]))
          else
            (case backend_reset em backend (n_walkers m) ndim of
               Inl e \<Rightarrow>
                 (Inl e, [HDFBackend_open (backend_file m), Backend_reset (n_walkers m) ndim])
             | Inr backend' \<Rightarrow>
                 (case generate_initial_pos randn m of
                    Inl e \<Rightarrow>
                      (Inl e, [HDFBackend_open (backend_file m), Backend_reset (n_walkers m) ndim])
                  | Inr pos0 \<Rightarrow>
                      (Inr (backend', pos0),
                       [HDFBackend_open (backend_file m), Backend_reset (n_walkers m) ndim]))))"

definition run ::
  "('b, 'c) emcee \<Rightarrow> (nat \<Rightarrow> nat \<Rightarrow> real) \<Rightarrow> int \<Rightarrow> bool \<Rightarrow> ('c, 'r) mcmc
     \<Rightarrow> ((exn + emcee_sampler option) \<times> ('c, 'r) mcmc) \<times> event list"
where
  "run em randn N resume m =
     (let m0 = m\<lparr>counter := Some 0\<rparr>;
          ndim = length (fit_keys m0);
          m1 = (if n_walkers m0 < 2 * int ndim then m0\<lparr>n_walkers := 2 * int ndim\<rparr> else m0)
      in case run_setup em randn resume m1 of
           (Inl e, evs) \<Rightarrow> ((Inl e, m1), evs)
         | (Inr (backend, pos0), evs) \<Rightarrow>
             (case EnsembleSampler em (n_walkers m1) ndim backend of
                Inl e \<Rightarrow> ((Inl e, m1), evs @ [EnsembleSampler_new (n_walkers m1) ndim])
              | Inr s \<Rightarrow>
                  if N > 0 then
                    (case run_mcmc em s pos0 N (cosmology m1) of
                       (raised, s', c') \<Rightarrow>
                         let m2 = m1\<lparr>sampler := Some s', cosmology := c'\<rparr>
                         in ((case raised of None \<Rightarrow> Inr (sampler m2) | Some e \<Rightarrow> Inl e, m2),
                             evs @ [EnsembleSampler_new (n_walkers m1) ndim, Run_mcmc pos0 N]))
                  else
                    ((Inr (sampler m1), m1), evs @ [EnsembleSampler_new (n_walkers m1) ndim])))"

subsection \<open>get_bf_params\<close>

text \<open>The order of log-probabilities: negative infinity below every finite value.\<close>

fun lp_less :: "logprob \<Rightarrow> logprob \<Rightarrow> bool" where
  "lp_less NegInf (Fin y) = True"
| "lp_less (Fin x) (Fin y) = (x < y)"
| "lp_less a NegInf = False"

definition lp_le :: "logprob \<Rightarrow> logprob \<Rightarrow> bool" where
  "lp_le a b = (\<not> lp_less b a)"

text \<open>
  numpy's \<open>argmax\<close> of a one-dimensional array: the first index of a maximum, and a
  \<open>ValueError\<close> on an empty array. \<open>argmax_from i b v xs\<close> scans \<open>xs\<close>, whose head has index
  \<open>i\<close>, with the best index \<open>b\<close> and its value \<open>v\<close> so far.
\<close>

fun argmax_from :: "nat \<Rightarrow> nat \<Rightarrow> logprob \<Rightarrow> logprob list \<Rightarrow> nat" where
  "argmax_from i b v [] = b"
| "argmax_from i b v (x # xs) =
     (if lp_less v x then argmax_from (Suc i) i x xs else argmax_from (Suc i) b v xs)"

definition argmax :: "logprob list \<Rightarrow> exn + nat" where
  "argmax xs = (case xs of [] \<Rightarrow> Inl ValueError | x # ys \<Rightarrow> Inr (argmax_from 1 0 x ys))"

text \<open>The loop \<open>bf_params[k] = bf_values[i]\<close> over \<open>enumerate(self.fit_keys)\<close>, from index \<open>i\<close>.\<close>

fun bf_params_loop :: "real list \<Rightarrow> nat \<Rightarrow> key list \<Rightarrow> real dict \<Rightarrow> exn + real dict" where
  "bf_params_loop bf_values i [] bf = Inr bf"
| "bf_params_loop bf_values i (k # ks) bf =
     (case list_get bf_values i of
        Inl e \<Rightarrow> Inl e
      | Inr v \<Rightarrow> bf_params_loop bf_values (Suc i) ks (dict_set k v bf))"

definition get_bf_params :: "('c, 'r) mcmc \<Rightarrow> exn + real dict" where
  "get_bf_params m =
     (case sampler m of
        None \<Rightarrow> Inl AttributeError
      | Some s \<Rightarrow>
          (case argmax (flatlnprobability s) of
             Inl e \<Rightarrow> Inl e
           | Inr whmax \<Rightarrow>
               (case list_get (flatchain s) whmax of
                  Inl e \<Rightarrow> Inl e
                | Inr bf_values \<Rightarrow> bf_params_loop bf_values 0 (fit_keys m) [])))"

subsection \<open>Example objects\<close>

text \<open>
  A cosmology model whose object is its parameter dictionary: \<open>set_model_params\<close> stores
  the entries, \<open>full_run\<close> raises unless \<open>H0\<close> is a positive number.
\<close>

definition example_cosmology :: "(pyval dict, real) cosmology_model" where
  "example_cosmology =
     \<lparr> set_model_params = (\<lambda>mp c. (None, fold (\<lambda>(k, v). dict_set k v) mp c)),
       full_run = (\<lambda>c. (case map_of c ''H0'' of
                            Some (PNum h) \<Rightarrow>
                              if num_val h \<le> 0 then Inl (Raised ''CAMBError'')
                              else Inr (num_val h / 100)
                          | _ \<Rightarrow> Inl (Raised ''CAMBError''), c)) \<rparr>"

definition example_params :: "pyval dict" where
  "example_params =
     [(''H0'', PList [PyInt 60, PyInt 70, PyInt 80]), (''tau'', PNum (PyFloat (6 / 100))),
      (''ns'', PTuple [PyFloat (9 / 10), PyFloat (96 / 100), PyInt 1])]"

definition example_mcmc :: "(pyval dict, real) mcmc" where
  "example_mcmc = snd (set_params example_cosmology example_params (init 2 (1 / 100) None))"

definition example_reclassify :: "(pyval dict, real) mcmc" where
  "example_reclassify =
     snd (set_params example_cosmology
            [(''H0'', PNum (PyInt 68)),
             (''tau'', PList [PyFloat (1 / 100), PyFloat (6 / 100), PyFloat (1 / 10)])]
            example_mcmc)"

text \<open>A likelihood, and the example object with a cosmology and that likelihood.\<close>

definition example_like :: "real option \<Rightarrow> exn + real" where
  "example_like ps_theory =
     (case ps_theory of None \<Rightarrow> Inl (Raised ''TypeError'') | Some r \<Rightarrow> Inr (- (r * r)))"

definition example_ready :: "(pyval dict, real) mcmc" where
  "example_ready = add_likelihood example_like (snd (set_cosmology example_cosmology [] example_mcmc))"

definition example_wide :: "(pyval dict, real) mcmc" where
  "example_wide = snd (set_params example_cosmology [(''H0'', PList [PyInt (- 10), PyInt 0, PyInt 10])]
            example_ready)"

text \<open>Random draws and a sampler after a run of four samples.\<close>

definition example_randn :: "nat \<Rightarrow> nat \<Rightarrow> real" where
  "example_randn i j = real i - real j / 2"

definition example_sampler :: emcee_sampler where
  "example_sampler =
     \<lparr> flatlnprobability = [Fin (- 3), Fin (- 1), NegInf, Fin (- 1)],
       flatchain = [[66, 93 / 100], [68, 97 / 100], [90, 2], [69, 95 / 100]] \<rparr>"

text \<open>
  An emcee whose backend is the list of stored steps: the file holds one step, a reset
  empties it, and the sampler, which refuses fewer walkers than twice the dimension, starts
  from the chain of its backend. \<open>example_fresh\<close> is the example object with no jitter, and
  \<open>example_integer\<close> an object whose only fit parameter is given by Python ints.
\<close>

definition example_emcee :: "(real list list list, pyval dict) emcee" where
  "example_emcee =
     \<lparr> HDFBackend = (\<lambda>file. Inr [[[65, 9 / 10], [66, 95 / 100]]]),
       backend_last_pos = (\<lambda>b. case b of [] \<Rightarrow> Inl AttributeError | step # steps \<Rightarrow> Inr (last b)),
       backend_reset = (\<lambda>b nw ndim. Inr []),
       EnsembleSampler = (\<lambda>nw ndim b.
          if nw < 2 * int ndim then Inl ValueError
          else Inr \<lparr>flatlnprobability = [], flatchain = concat b\<rparr>),
       run_mcmc = (\<lambda>s pos0 N c. (None, example_sampler, c)) \<rparr>"

definition example_fresh :: "(pyval dict, real) mcmc" where
  "example_fresh = example_ready\<lparr>initial_delta := 0\<rparr>"

definition example_integer :: "(pyval dict, real) mcmc" where
  "example_integer =
     snd (set_params example_cosmology [(''H0'', PList [PyInt 60, PyInt 70, PyInt 80])]
            (init 2 0 None))"

text \<open>The object after the first lines of \<open>run\<close> (113 to 119), for the proofs below.\<close>

definition walkers_corrected :: "('c, 'r) mcmc \<Rightarrow> ('c, 'r) mcmc" where
  "walkers_corrected m =
     (if n_walkers m < 2 * int (length (fit_keys m))
      then m\<lparr>counter := Some 0, n_walkers := 2 * int (length (fit_keys m))\<rparr>
      else m\<lparr>counter := Some 0\<rparr>)"

section \<open>Dictionaries\<close>

lemma map_of_dict_set: "map_of (dict_set k v d) k' = (if k' = k then Some v else map_of d k')"
  by (induction d) auto

lemma dict_keys_dict_set:
  "dict_keys (dict_set k v d) = (if k \<in> set (dict_keys d) then dict_keys d else dict_keys d @ [k])"
proof (induction d)
  case Nil
  then show ?case by (simp add: dict_keys_def)
next
  case (Cons p d)
  then show ?case by (cases p) (simp add: dict_keys_def)
qed

lemma keys_dict_set: "set (dict_keys (dict_set k v d)) = insert k (set (dict_keys d))"
  by (auto simp: dict_keys_dict_set)

lemma distinct_dict_set: "distinct (dict_keys d) \<Longrightarrow> distinct (dict_keys (dict_set k v d))"
  by (simp add: dict_keys_dict_set)

lemma map_of_keys: "map_of d k \<noteq> None \<longleftrightarrow> k \<in> set (dict_keys d)"
  by (simp add: dict_keys_def map_of_eq_None_iff)

section \<open>set_params\<close>

lemma set_params_loop_fit:
  "distinct (map fst ps) \<Longrightarrow>
   map_of (fit_params (set_params_loop ps m)) k =
     (case map_of ps k of
        Some (PList xs) \<Rightarrow> Some xs
      | Some (PTuple xs) \<Rightarrow> Some xs
      | _ \<Rightarrow> map_of (fit_params m) k)"
proof (induction ps arbitrary: m)
  case Nil
  then show ?case by simp
next
  case (Cons p ps)
  obtain k' v where p: "p = (k', v)" by (cases p)
  have notin: "k' = k \<Longrightarrow> map_of ps k = None"
    using Cons.prems p by (simp add: map_of_eq_None_iff)
  show ?case
    using Cons.IH [of "case v of
          PList xs \<Rightarrow> m\<lparr>fit_params := dict_set k' xs (fit_params m)\<rparr>
        | PTuple xs \<Rightarrow> m\<lparr>fit_params := dict_set k' xs (fit_params m)\<rparr>
        | _ \<Rightarrow> m\<lparr>base_params := dict_set k' v (base_params m)\<rparr>"] Cons.prems notin
    by (cases v) (auto simp: p map_of_dict_set split: option.splits pyval.splits)
qed

lemma set_params_loop_base:
  "distinct (map fst ps) \<Longrightarrow>
   map_of (base_params (set_params_loop ps m)) k =
     (case map_of ps k of
        None \<Rightarrow> map_of (base_params m) k
      | Some (PList xs) \<Rightarrow> map_of (base_params m) k
      | Some (PTuple xs) \<Rightarrow> map_of (base_params m) k
      | Some v \<Rightarrow> Some v)"
proof (induction ps arbitrary: m)
  case Nil
  then show ?case by simp
next
  case (Cons p ps)
  obtain k' v where p: "p = (k', v)" by (cases p)
  have notin: "k' = k \<Longrightarrow> map_of ps k = None"
    using Cons.prems p by (simp add: map_of_eq_None_iff)
  show ?case
    using Cons.IH [of "case v of
          PList xs \<Rightarrow> m\<lparr>fit_params := dict_set k' xs (fit_params m)\<rparr>
        | PTuple xs \<Rightarrow> m\<lparr>fit_params := dict_set k' xs (fit_params m)\<rparr>
        | _ \<Rightarrow> m\<lparr>base_params := dict_set k' v (base_params m)\<rparr>"] Cons.prems notin
    by (cases v) (auto simp: p map_of_dict_set split: option.splits pyval.splits)
qed

lemma set_params_loop_fit_keys_mono:
  "set (dict_keys (fit_params m)) \<subseteq> set (dict_keys (fit_params (set_params_loop ps m)))"
proof (induction ps arbitrary: m)
  case Nil
  then show ?case by simp
next
  case (Cons p ps)
  obtain k v where p: "p = (k, v)" by (cases p)
  show ?case
    using Cons.IH [of "case v of
          PList xs \<Rightarrow> m\<lparr>fit_params := dict_set k xs (fit_params m)\<rparr>
        | PTuple xs \<Rightarrow> m\<lparr>fit_params := dict_set k xs (fit_params m)\<rparr>
        | _ \<Rightarrow> m\<lparr>base_params := dict_set k v (base_params m)\<rparr>"]
    by (cases v) (auto simp: p keys_dict_set)
qed

lemma set_params_loop_base_keys_mono:
  "set (dict_keys (base_params m)) \<subseteq> set (dict_keys (base_params (set_params_loop ps m)))"
proof (induction ps arbitrary: m)
  case Nil
  then show ?case by simp
next
  case (Cons p ps)
  obtain k v where p: "p = (k, v)" by (cases p)
  show ?case
    using Cons.IH [of "case v of
          PList xs \<Rightarrow> m\<lparr>fit_params := dict_set k xs (fit_params m)\<rparr>
        | PTuple xs \<Rightarrow> m\<lparr>fit_params := dict_set k xs (fit_params m)\<rparr>
        | _ \<Rightarrow> m\<lparr>base_params := dict_set k v (base_params m)\<rparr>"]
    by (cases v) (auto simp: p keys_dict_set)
qed

lemma set_params_stores:
  "fit_params (snd (set_params cm params m)) = fit_params (set_params_loop params m)"
  "base_params (snd (set_params cm params m)) = base_params (set_params_loop params m)"
  "fit_keys (snd (set_params cm params m)) = dict_keys (fit_params (set_params_loop params m))"
  by (simp_all add: set_params_def Let_def split: option.splits prod.splits)


lemma example_mcmc_eq:
  "example_mcmc = \<lparr> n_walkers = 2, initial_delta = 1 / 100, sampler = None, cosmology = None,
       base_params = [(''tau'', PNum (PyFloat (6 / 100)))],
       fit_params = [(''H0'', [PyInt 60, PyInt 70, PyInt 80]), (''ns'', [PyFloat (9 / 10), PyFloat (96 / 100), PyInt 1])],
       fit_keys = [''H0'', ''ns''], backend_file = None,
       likelihoods = [], counter = None \<rparr>"
  by (simp add: example_mcmc_def example_params_def set_params_def init_def dict_keys_def)

text \<open>
  C5 (as amended). For a configuration mapping passed to \<open>set_params\<close>, a key whose value is
  a list or a tuple, of any length, is stored in the fit-parameter store as a list and is a fit
  key, and its entry of the base-parameter store is left as it was; a key whose value is
  anything else is stored in the base-parameter store, and its entry of the fit-parameter
  store is left as it was.
\<close>

theorem set_params_classification:
  assumes "distinct (map fst params)"
      and "(k, v) \<in> set params"
      and "m' = snd (set_params cm params m)"
  shows "(\<forall>xs. v = PList xs \<or> v = PTuple xs \<longrightarrow>
            map_of (fit_params m') k = Some xs \<and> k \<in> set (fit_keys m') \<and>
            map_of (base_params m') k = map_of (base_params m) k) \<and>
         ((\<forall>xs. v \<noteq> PList xs \<and> v \<noteq> PTuple xs) \<longrightarrow>
            map_of (base_params m') k = Some v \<and>
            map_of (fit_params m') k = map_of (fit_params m) k)"
proof -
  have kv: "map_of params k = Some v"
    using assms(1,2) by simp
  have fit: "map_of (fit_params m') k =
      (case v of PList xs \<Rightarrow> Some xs | PTuple xs \<Rightarrow> Some xs | _ \<Rightarrow> map_of (fit_params m) k)"
    using set_params_loop_fit [OF assms(1), of m k] kv
    by (simp add: assms(3) set_params_stores split: pyval.splits)
  have base: "map_of (base_params m') k =
      (case v of PList xs \<Rightarrow> map_of (base_params m) k | PTuple xs \<Rightarrow> map_of (base_params m) k
       | _ \<Rightarrow> Some v)"
    using set_params_loop_base [OF assms(1), of m k] kv
    by (simp add: assms(3) set_params_stores split: pyval.splits)
  have keys: "map_of (fit_params m') k \<noteq> None \<Longrightarrow> k \<in> set (fit_keys m')"
    using map_of_keys [of "fit_params m'" k] by (simp add: assms(3) set_params_stores)
  show ?thesis
    using fit base keys by (cases v) auto
qed

theorem set_params_classification_witness:
  "map_of (fit_params example_mcmc) ''H0'' = Some [PyInt 60, PyInt 70, PyInt 80] \<and>
   map_of (fit_params example_mcmc) ''ns'' = Some [PyFloat (9 / 10), PyFloat (96 / 100), PyInt 1] \<and>
   map_of (base_params example_mcmc) ''tau'' = Some (PNum (PyFloat (6 / 100))) \<and>
   map_of (fit_params example_mcmc) ''tau'' = None"
proof -
  have d: "distinct (map fst example_params)"
    by (simp add: example_params_def)
  have i: "(''H0'', PList [PyInt 60, PyInt 70, PyInt 80]) \<in> set example_params"
     "(''ns'', PTuple [PyFloat (9 / 10), PyFloat (96 / 100), PyInt 1]) \<in> set example_params"
     "(''tau'', PNum (PyFloat (6 / 100))) \<in> set example_params"
    by (simp_all add: example_params_def)
  show ?thesis
    using set_params_classification [OF d i(1) example_mcmc_def]
      set_params_classification [OF d i(2) example_mcmc_def]
      set_params_classification [OF d i(3) example_mcmc_def]
    by (simp add: init_def)
qed

text \<open>
  C5 as stated fails: a list of two elements is no base parameter, it is a fit parameter.
\<close>

theorem set_params_short_list_counterexample:
  "fit_params (snd (set_params example_cosmology [(''w'', PList [PyInt 1, PyInt 2])] (init 2 (1 / 100) None)))
     = [(''w'', [PyInt 1, PyInt 2])] \<and>
   fit_keys (snd (set_params example_cosmology [(''w'', PList [PyInt 1, PyInt 2])] (init 2 (1 / 100) None)))
     = [''w''] \<and>
   base_params (snd (set_params example_cosmology [(''w'', PList [PyInt 1, PyInt 2])] (init 2 (1 / 100) None)))
     = []"
  by (simp add: set_params_def init_def dict_keys_def)

text \<open>
  C9. \<open>set_params\<close> never removes an entry: every key of the fit-parameter store stays in it
  and is a fit key afterwards, every key of the base-parameter store stays in it. A key that
  had a fit entry and is supplied with a scalar gets a base entry and keeps its fit entry; a
  key that had a base entry and is supplied with a list or tuple gets a fit entry and keeps
  its base entry.
\<close>

theorem set_params_never_removes:
  assumes "m' = snd (set_params cm params m)"
  shows "set (dict_keys (fit_params m)) \<subseteq> set (dict_keys (fit_params m')) \<and>
         set (dict_keys (fit_params m)) \<subseteq> set (fit_keys m') \<and>
         set (dict_keys (base_params m)) \<subseteq> set (dict_keys (base_params m')) \<and>
         (\<forall>k v b. distinct (map fst params) \<and> (k, v) \<in> set params \<and>
             (\<forall>xs. v \<noteq> PList xs \<and> v \<noteq> PTuple xs) \<and> map_of (fit_params m) k = Some b \<longrightarrow>
             map_of (base_params m') k = Some v \<and> map_of (fit_params m') k = Some b \<and>
             k \<in> set (fit_keys m')) \<and>
         (\<forall>k xs w. distinct (map fst params) \<and>
             ((k, PList xs) \<in> set params \<or> (k, PTuple xs) \<in> set params) \<and>
             map_of (base_params m) k = Some w \<longrightarrow>
             map_of (fit_params m') k = Some xs \<and> map_of (base_params m') k = Some w)"
proof -
  have a: "set (dict_keys (fit_params m)) \<subseteq> set (dict_keys (fit_params m'))"
    by (simp add: assms set_params_stores set_params_loop_fit_keys_mono)
  have b: "set (dict_keys (fit_params m)) \<subseteq> set (fit_keys m')"
    by (simp add: assms set_params_stores set_params_loop_fit_keys_mono)
  have c: "set (dict_keys (base_params m)) \<subseteq> set (dict_keys (base_params m'))"
    by (simp add: assms set_params_stores set_params_loop_base_keys_mono)
  have d: "map_of (base_params m') k = Some v \<and> map_of (fit_params m') k = Some b \<and>
      k \<in> set (fit_keys m')"
    if "distinct (map fst params)" "(k, v) \<in> set params"
      "\<forall>xs. v \<noteq> PList xs \<and> v \<noteq> PTuple xs" "map_of (fit_params m) k = Some b" for k v b
  proof -
    have kv: "map_of params k = Some v" using that(1,2) by simp
    have "map_of (base_params m') k = Some v"
      using set_params_loop_base [OF that(1), of m k] kv that(3)
      by (cases v) (simp_all add: assms set_params_stores)
    moreover have "map_of (fit_params m') k = Some b"
      using set_params_loop_fit [OF that(1), of m k] kv that(3,4)
      by (cases v) (simp_all add: assms set_params_stores)
    moreover have "k \<in> set (fit_keys m')"
      using b that(4) map_of_keys [of "fit_params m" k] by auto
    ultimately show ?thesis by simp
  qed
  have e: "map_of (fit_params m') k = Some xs \<and> map_of (base_params m') k = Some w"
    if "distinct (map fst params)" "(k, PList xs) \<in> set params \<or> (k, PTuple xs) \<in> set params"
      "map_of (base_params m) k = Some w" for k xs w
  proof -
    have kv: "map_of params k = Some (PList xs) \<or> map_of params k = Some (PTuple xs)"
      using that(1,2) by auto
    then show ?thesis
      using set_params_loop_base [OF that(1), of m k] set_params_loop_fit [OF that(1), of m k]
        that(3)
      by (auto simp: assms set_params_stores)
  qed
  show ?thesis
    using a b c d e by blast
qed

theorem set_params_never_removes_witness:
  "map_of (base_params example_reclassify) ''H0'' = Some (PNum (PyInt 68)) \<and>
   map_of (fit_params example_reclassify) ''H0'' = Some [PyInt 60, PyInt 70, PyInt 80] \<and>
   ''H0'' \<in> set (fit_keys example_reclassify) \<and>
   map_of (fit_params example_reclassify) ''tau'' = Some [PyFloat (1 / 100), PyFloat (6 / 100), PyFloat (1 / 10)] \<and>
   map_of (base_params example_reclassify) ''tau'' = Some (PNum (PyFloat (6 / 100)))"
proof -
  let ?ps = "[(''H0'', PNum (PyInt 68)), (''tau'', PList [PyFloat (1 / 100), PyFloat (6 / 100), PyFloat (1 / 10)])]"
  have scalar: "distinct (map fst ?ps) \<and> (''H0'', PNum (PyInt 68)) \<in> set ?ps \<and>
      (\<forall>xs. PNum (PyInt 68) \<noteq> PList xs \<and> PNum (PyInt 68) \<noteq> PTuple xs) \<and>
      map_of (fit_params example_mcmc) ''H0'' = Some [PyInt 60, PyInt 70, PyInt 80]"
    by (simp add: example_mcmc_eq)
  have triple: "distinct (map fst ?ps) \<and>
      ((''tau'', PList [PyFloat (1 / 100), PyFloat (6 / 100), PyFloat (1 / 10)]) \<in> set ?ps \<or>
       (''tau'', PTuple [PyFloat (1 / 100), PyFloat (6 / 100), PyFloat (1 / 10)]) \<in> set ?ps) \<and>
      map_of (base_params example_mcmc) ''tau'' = Some (PNum (PyFloat (6 / 100)))"
    by (simp add: example_mcmc_eq)
  show ?thesis
    using set_params_never_removes [OF example_reclassify_def] scalar triple by blast
qed

section \<open>lnprior\<close>

lemma lnprior_loop_bounds:
  assumes "i + length ks \<le> length theta"
      and "\<And>j. j < length ks \<Longrightarrow> map_of fp (ks ! j) = Some [lo (i + j), fid (i + j), hi (i + j)]"
  shows "lnprior_loop fp theta i ks =
           Inr (if \<forall>j<length ks. num_val (lo (i + j)) \<le> theta ! (i + j) \<and>
                                    theta ! (i + j) \<le> num_val (hi (i + j))
                then Fin 0 else NegInf)"
  using assms
proof (induction ks arbitrary: i)
  case Nil
  then show ?case by simp
next
  case (Cons k ks)
  have k: "map_of fp k = Some [lo i, fid i, hi i]"
    using Cons.prems(2) [of 0] by simp
  have len: "i < length theta" "Suc i + length ks \<le> length theta"
    using Cons.prems(1) by simp_all
  have rest: "\<And>j. j < length ks \<Longrightarrow>
      map_of fp (ks ! j) = Some [lo (Suc i + j), fid (Suc i + j), hi (Suc i + j)]"
    using Cons.prems(2) [of "Suc j" for j] by simp
  note IH = Cons.IH [OF len(2) rest]
  have all_Suc: "(\<forall>j<Suc (length ks). num_val (lo (i + j)) \<le> theta ! (i + j) \<and>
                                          theta ! (i + j) \<le> num_val (hi (i + j)))
      \<longleftrightarrow> (num_val (lo i) \<le> theta ! i \<and> theta ! i \<le> num_val (hi i)) \<and>
          (\<forall>j<length ks. num_val (lo (Suc i + j)) \<le> theta ! (Suc i + j) \<and>
                          theta ! (Suc i + j) \<le> num_val (hi (Suc i + j)))"
    by (simp add: All_less_Suc2)
  show ?case
    using k len(1) IH all_Suc by (simp add: dict_get_def list_get_def not_less)
qed


text \<open>
  C1. Let \<open>theta\<close> be aligned to the fit keys and let every fit key \<open>j\<close> have the registered
  triple \<open>[lo j, fid j, hi j]\<close>. If every component lies within its bound, \<open>lnprior\<close> returns
  zero; if a component lies outside its bound, it returns negative infinity.
\<close>

theorem lnprior_flat_within_bounds:
  assumes "length theta = length (fit_keys m)"
      and "\<And>j. j < length (fit_keys m) \<Longrightarrow>
             map_of (fit_params m) (fit_keys m ! j) = Some [lo j, fid j, hi j]"
  shows "((\<forall>j<length (fit_keys m). num_val (lo j) \<le> theta ! j \<and> theta ! j \<le> num_val (hi j))
            \<longrightarrow> lnprior theta m = Inr (Fin 0)) \<and>
         ((\<exists>j<length (fit_keys m). theta ! j < num_val (lo j) \<or> num_val (hi j) < theta ! j)
            \<longrightarrow> lnprior theta m = Inr NegInf)"
proof -
  have "lnprior theta m =
          Inr (if \<forall>j<length (fit_keys m). num_val (lo (0 + j)) \<le> theta ! (0 + j) \<and>
                                               theta ! (0 + j) \<le> num_val (hi (0 + j))
               then Fin 0 else NegInf)"
    unfolding lnprior_def
    by (rule lnprior_loop_bounds) (simp_all add: assms)
  then show ?thesis by (auto simp: not_le)
qed

theorem lnprior_flat_within_bounds_witness:
  "lnprior [70, 95 / 100] example_mcmc = Inr (Fin 0) \<and>
   lnprior [70, 15 / 10] example_mcmc = Inr NegInf \<and>
   lnprior [60, 1] example_mcmc = Inr (Fin 0)"
proof -
  have keys: "length (fit_keys example_mcmc) = 2"
    by (simp add: example_mcmc_eq)
  have reg: "\<And>j. j < length (fit_keys example_mcmc) \<Longrightarrow>
      map_of (fit_params example_mcmc) (fit_keys example_mcmc ! j)
        = Some [[PyInt 60, PyFloat (9 / 10)] ! j, [PyInt 70, PyFloat (96 / 100)] ! j,
                [PyInt 80, PyInt 1] ! j]"
    by (auto simp: example_mcmc_eq less_Suc_eq numeral_2_eq_2)
  show ?thesis
    using
      lnprior_flat_within_bounds [of "[70, 95 / 100]" example_mcmc "\<lambda>j. [PyInt 60, PyFloat (9 / 10)] ! j" _
        "\<lambda>j. [PyInt 80, PyInt 1] ! j", OF _ reg]
      lnprior_flat_within_bounds [of "[70, 15 / 10]" example_mcmc "\<lambda>j. [PyInt 60, PyFloat (9 / 10)] ! j" _
        "\<lambda>j. [PyInt 80, PyInt 1] ! j", OF _ reg]
      lnprior_flat_within_bounds [of "[60, 1]" example_mcmc "\<lambda>j. [PyInt 60, PyFloat (9 / 10)] ! j" _
        "\<lambda>j. [PyInt 80, PyInt 1] ! j", OF _ reg]
    by (simp add: keys All_less_Suc Ex_less_Suc numeral_2_eq_2)
qed

section \<open>generate_theory and lnprob\<close>

lemma example_ready_eq:
  "example_ready = \<lparr> n_walkers = 2, initial_delta = 1 / 100, sampler = None,
       cosmology = Some [(''tau'', PNum (PyFloat (6 / 100)))],
       base_params = [(''tau'', PNum (PyFloat (6 / 100)))],
       fit_params = [(''H0'', [PyInt 60, PyInt 70, PyInt 80]), (''ns'', [PyFloat (9 / 10), PyFloat (96 / 100), PyInt 1])],
       fit_keys = [''H0'', ''ns''], backend_file = None,
       likelihoods = [example_like], counter = None \<rparr>"
  by (simp add: example_ready_def example_mcmc_eq set_cosmology_def add_likelihood_def
      example_cosmology_def)

lemma example_wide_eq:
  "example_wide = \<lparr> n_walkers = 2, initial_delta = 1 / 100, sampler = None,
       cosmology = Some [(''tau'', PNum (PyFloat (6 / 100)))],
       base_params = [(''tau'', PNum (PyFloat (6 / 100)))],
       fit_params = [(''H0'', [PyInt (- 10), PyInt 0, PyInt 10]),
                     (''ns'', [PyFloat (9 / 10), PyFloat (96 / 100), PyInt 1])],
       fit_keys = [''H0'', ''ns''], backend_file = None,
       likelihoods = [example_like], counter = None \<rparr>"
  by (simp add: example_wide_def example_ready_eq set_params_def dict_keys_def
      example_cosmology_def)

lemma generate_theory_frame:
  "fit_params (snd (generate_theory cm theta m)) = fit_params m"
  "fit_keys (snd (generate_theory cm theta m)) = fit_keys m"
  "likelihoods (snd (generate_theory cm theta m)) = likelihoods m"
  by (simp_all add: generate_theory_def split: sum.splits option.splits prod.splits)

lemma like_loop_unbound: "fs \<noteq> [] \<Longrightarrow> like_loop fs ps None = Inl UnboundLocalError"
  by (cases fs) simp_all

lemma like_loop_initialised:
  "list_all2 (\<lambda>f v. f ps = Inr v) fs vs \<Longrightarrow> like_loop fs ps (Some a) = Inr (Some (a + sum_list vs))"
  by (induction fs vs arbitrary: a rule: list_all2_induct) (simp_all add: add.assoc)

text \<open>
  C3. When the model run succeeds, the prior is finite and at least one likelihood is
  registered, \<open>lnprob\<close> raises \<open>UnboundLocalError\<close> (the accumulator \<open>like\<close> is read by the
  first \<open>like += ...\<close> and was never assigned) and returns no value.
\<close>

theorem lnprob_unbound_accumulator:
  assumes "fst (generate_theory cm theta m) = Inr (ps_theory, False)"
      and "lnprior theta m = Inr (Fin prior)"
      and "likelihoods m \<noteq> []"
  shows "fst (lnprob cm theta m) = Inl UnboundLocalError"
proof -
  obtain m' where g: "generate_theory cm theta m = (Inr (ps_theory, False), m')"
    using assms(1) by (cases "generate_theory cm theta m") simp
  have m': "fit_params m' = fit_params m" "fit_keys m' = fit_keys m" "likelihoods m' = likelihoods m"
    using generate_theory_frame [of cm theta m] by (simp_all add: g)
  have prior: "lnprior theta m' = Inr (Fin prior)"
    using assms(2) by (simp add: lnprior_def m')
  have "like_loop (likelihoods m') ps_theory None = Inl UnboundLocalError"
    using assms(3) by (simp add: m' like_loop_unbound)
  then show ?thesis
    by (simp add: lnprob_def g prior)
qed

theorem lnprob_unbound_accumulator_witness:
  "fst (generate_theory example_cosmology [70, 95 / 100] example_ready) = Inr (Some (7 / 10), False) \<and>
   lnprior [70, 95 / 100] example_ready = Inr (Fin 0) \<and>
   likelihoods example_ready = [example_like] \<and>
   fst (lnprob example_cosmology [70, 95 / 100] example_ready) = Inl UnboundLocalError"
proof -
  have g: "fst (generate_theory example_cosmology [70, 95 / 100] example_ready)
      = Inr (Some (7 / 10), False)"
    by (simp add: generate_theory_def example_ready_eq example_cosmology_def list_get_def)
  have p: "lnprior [70, 95 / 100] example_ready = Inr (Fin 0)"
    by (simp add: lnprior_def example_ready_eq dict_get_def list_get_def)
  have l: "likelihoods example_ready = [example_like]"
    by (simp add: example_ready_eq)
  show ?thesis
    using lnprob_unbound_accumulator [OF g p] g p l by simp
qed

text \<open>
  C2 does not hold of the code. At \<open>theta = [70, 0.95]\<close> the model run succeeds, the prior
  is \<open>0\<close> and the one registered likelihood gives \<open>-0.49\<close>, but \<open>lnprob\<close> raises
  \<open>UnboundLocalError\<close> where the claim has it return \<open>-0.49\<close>; with no likelihood registered
  it raises too (the \<open>print\<close> reads \<open>like\<close>) where the claim has it return \<open>0\<close>.
  \<open>like_loop_initialised\<close> above is the sum the loop computes from an assigned accumulator.
\<close>

theorem lnprob_sum_not_returned:
  "fst (generate_theory example_cosmology [70, 95 / 100] example_ready) = Inr (Some (7 / 10), False) \<and>
   lnprior [70, 95 / 100] example_ready = Inr (Fin 0) \<and>
   map (\<lambda>like_func. like_func (Some (7 / 10))) (likelihoods example_ready) = [Inr (- (49 / 100))] \<and>
   fst (lnprob example_cosmology [70, 95 / 100] example_ready) = Inl UnboundLocalError \<and>
   fst (lnprob example_cosmology [70, 95 / 100] (example_ready\<lparr>likelihoods := []\<rparr>))
     = Inl UnboundLocalError"
  by (simp add: lnprob_def generate_theory_def lnprior_def example_ready_eq example_cosmology_def
      example_like_def dict_get_def list_get_def power2_eq_square)

text \<open>
  C4. When \<open>full_run\<close> raises an exception (an instance of \<open>Exception\<close>) on the parameters
  of \<open>theta\<close>, \<open>generate_theory\<close> does not raise, it returns \<open>(None, True)\<close>, and \<open>lnprob\<close>
  returns negative infinity, whatever the prior is.
\<close>

theorem lnprob_model_failure:
  assumes "model_params_loop theta 0 (fit_keys m) [] = Inr model_params"
      and "cosmology m = Some c"
      and "set_model_params cm model_params c = (None, c')"
      and "full_run cm c' = (Inl e, c'')"
      and "is_Exception e"
  shows "fst (generate_theory cm theta m) = Inr (None, True) \<and>
         fst (lnprob cm theta m) = Inr NegInf"
  using assms by (simp add: lnprob_def generate_theory_def)

theorem lnprob_model_failure_witness:
  "lnprior [0, 95 / 100] example_wide = Inr (Fin 0) \<and>
   fst (generate_theory example_cosmology [0, 95 / 100] example_wide) = Inr (None, True) \<and>
   fst (lnprob example_cosmology [0, 95 / 100] example_wide) = Inr NegInf"
proof -
  let ?mp = "[(''H0'', PNum (PyFloat 0)), (''ns'', PNum (PyFloat (95 / 100)))]"
  let ?c = "[(''tau'', PNum (PyFloat (6 / 100))), (''H0'', PNum (PyFloat 0)), (''ns'', PNum (PyFloat (95 / 100)))]"
  have 1: "model_params_loop [0, 95 / 100] 0 (fit_keys example_wide) [] = Inr ?mp"
    by (simp add: example_wide_eq list_get_def)
  have 2: "cosmology example_wide = Some [(''tau'', PNum (PyFloat (6 / 100)))]"
    by (simp add: example_wide_eq)
  have 3: "set_model_params example_cosmology ?mp [(''tau'', PNum (PyFloat (6 / 100)))] = (None, ?c)"
    by (simp add: example_cosmology_def)
  have 4: "full_run example_cosmology ?c = (Inl (Raised ''CAMBError''), ?c)"
    by (simp add: example_cosmology_def)
  have 5: "is_Exception (Raised ''CAMBError'')"
    by simp
  have p: "lnprior [0, 95 / 100] example_wide = Inr (Fin 0)"
    by (simp add: lnprior_def example_wide_eq dict_get_def list_get_def)
  show ?thesis
    using lnprob_model_failure [OF 1 2 3 4 5] p by simp
qed

text \<open>An exception that is no instance of \<open>Exception\<close> is not caught.\<close>

lemma generate_theory_system_exit:
  assumes "model_params_loop theta 0 (fit_keys m) [] = Inr model_params"
      and "cosmology m = Some c"
      and "set_model_params cm model_params c = (None, c')"
      and "full_run cm c' = (Inl (SystemExiting cls), c'')"
  shows "fst (generate_theory cm theta m) = Inl (SystemExiting cls)"
  using assms by (simp add: generate_theory_def)

section \<open>generate_initial_pos\<close>

lemma fiducials_registered:
  assumes "\<And>j. j < length ks \<Longrightarrow> map_of fp (ks ! j) = Some [lo (i + j), fid (i + j), hi (i + j)]"
  shows "fiducials fp ks = Inr (map fid [i..<i + length ks])"
  using assms
proof (induction ks arbitrary: i)
  case Nil
  then show ?case by simp
next
  case (Cons k ks)
  have k: "map_of fp k = Some [lo i, fid i, hi i]"
    using Cons.prems [of 0] by simp
  have rest: "\<And>j. j < length ks \<Longrightarrow>
      map_of fp (ks ! j) = Some [lo (Suc i + j), fid (Suc i + j), hi (Suc i + j)]"
    using Cons.prems [of "Suc j" for j] by simp
  have "fiducials fp ks = Inr (map fid [Suc i..<Suc i + length ks])"
    by (rule Cons.IH [OF rest])
  moreover have "[i..<i + length (k # ks)] = i # [Suc i..<Suc i + length ks]"
    using upt_rec [of i "i + length (k # ks)"] by simp
  ultimately show ?case
    using k by (simp add: dict_get_def list_get_def del: upt_Suc)
qed

lemma all_ints_float: "PyFloat x \<in> set xs \<Longrightarrow> all_ints xs = None"
  by (induction xs rule: all_ints.induct) auto

lemma all_ints_ints: "all_ints (map PyInt ns) = Some ns"
  by (induction ns) simp_all

lemma np_array_float:
  "xs = [] \<or> (\<exists>x. PyFloat x \<in> set xs) \<Longrightarrow> np_array xs = Float_array (map num_val xs)"
  by (auto simp: np_array_def all_ints_float split: list.splits)

lemma np_array_ints: "ns \<noteq> [] \<Longrightarrow> np_array (map PyInt ns) = Int_array ns"
  by (cases ns) (simp_all add: np_array_def all_ints_ints)

lemma perturb_zero: "perturb r 0 (Float_array pos) = Inr pos"
  by (simp add: case_prod_unfold map_idI)

lemma initial_pos_loop_zero:
  assumes "initial_delta m = 0" and "fiducials (fit_params m) (fit_keys m) = Inr fids"
      and "np_array fids = Float_array pos"
  shows "initial_pos_loop randn m is = Inr (replicate (length is) pos)"
  by (induction "is") (simp_all add: assms perturb_zero del: perturb.simps)

lemma initial_pos_loop_int_array:
  assumes "fiducials (fit_params m) (fit_keys m) = Inr fids" and "np_array fids = Int_array ns"
      and "is \<noteq> []"
  shows "initial_pos_loop randn m is = Inl UFuncTypeError"
  using assms(3) by (cases "is") (simp_all add: assms(1,2))

text \<open>
  With \<open>initial_delta = 0\<close>, every fit key registered with a triple and a float among the
  fiducial values (or no fit key at all), the array of fiducials is a float array and every
  walker starts at the fiducial values.
\<close>

lemma generate_initial_pos_float_fiducials:
  assumes "initial_delta m = 0"
      and "\<And>j. j < length (fit_keys m) \<Longrightarrow>
             map_of (fit_params m) (fit_keys m ! j) = Some [lo j, fid j, hi j]"
      and "fit_keys m = [] \<or> (\<exists>j<length (fit_keys m). \<exists>x. fid j = PyFloat x)"
  shows "generate_initial_pos randn m =
           Inr (replicate (nat (n_walkers m)) (map (\<lambda>j. num_val (fid j)) [0..<length (fit_keys m)]))"
proof -
  let ?fids = "map fid [0..<length (fit_keys m)]"
  have f: "fiducials (fit_params m) (fit_keys m) = Inr ?fids"
    using fiducials_registered [of "fit_keys m" "fit_params m" lo 0 fid hi] assms(2) by simp
  have "?fids = [] \<or> (\<exists>x. PyFloat x \<in> set ?fids)"
    using assms(3) by (auto simp: image_iff) (metis atLeast0LessThan lessThan_iff)
  then have a: "np_array ?fids = Float_array (map num_val ?fids)"
    by (rule np_array_float)
  show ?thesis
    using initial_pos_loop_zero [OF assms(1) f a, of randn "[0..<nat (n_walkers m)]"]
    by (simp add: generate_initial_pos_def comp_def)
qed

text \<open>
  With every fiducial value a Python int, at least one fit key and at least one walker, the
  array of fiducials is an integer array and the in-place addition raises, whatever
  \<open>initial_delta\<close> is.
\<close>

lemma generate_initial_pos_int_fiducials:
  assumes "\<And>j. j < length (fit_keys m) \<Longrightarrow>
             map_of (fit_params m) (fit_keys m ! j) = Some [lo j, PyInt (fid j), hi j]"
      and "fit_keys m \<noteq> []" and "0 < n_walkers m"
  shows "generate_initial_pos randn m = Inl UFuncTypeError"
proof -
  let ?ns = "map fid [0..<length (fit_keys m)]"
  have "fiducials (fit_params m) (fit_keys m) = Inr (map (\<lambda>j. PyInt (fid j)) [0..<length (fit_keys m)])"
    using fiducials_registered [of "fit_keys m" "fit_params m" lo 0 "\<lambda>j. PyInt (fid j)" hi] assms(1)
    by simp
  then have f: "fiducials (fit_params m) (fit_keys m) = Inr (map PyInt ?ns)"
    by (simp add: comp_def)
  have a: "np_array (map PyInt ?ns) = Int_array ?ns"
    using assms(2) by (intro np_array_ints) simp
  have "[0..<nat (n_walkers m)] \<noteq> []"
    using assms(3) by simp
  then show ?thesis
    unfolding generate_initial_pos_def by (rule initial_pos_loop_int_array [OF f a])
qed

text \<open>
  C7 does not hold of the code. The object \<open>example_integer\<close> has \<open>initial_delta = 0\<close>, two
  walkers and the one fit parameter \<open>H0 = [60, 70, 80]\<close>, given by Python ints: the fiducial
  values are \<open>[70]\<close>, but \<open>generate_initial_pos\<close> raises \<open>UFuncTypeError\<close> where the claim has
  it return \<open>[70]\<close> for each walker.
\<close>

theorem generate_initial_pos_integer_fiducials:
  "initial_delta example_integer = 0 \<and> n_walkers example_integer = 2 \<and>
   fit_params example_integer = [(''H0'', [PyInt 60, PyInt 70, PyInt 80])] \<and>
   fiducials (fit_params example_integer) (fit_keys example_integer) = Inr [PyInt 70] \<and>
   generate_initial_pos example_randn example_integer = Inl UFuncTypeError"
proof -
  have m: "example_integer = \<lparr> n_walkers = 2, initial_delta = 0, sampler = None, cosmology = None,
       base_params = [], fit_params = [(''H0'', [PyInt 60, PyInt 70, PyInt 80])],
       fit_keys = [''H0''], backend_file = None, likelihoods = [], counter = None \<rparr>"
    by (simp add: example_integer_def set_params_def init_def dict_keys_def)
  have f: "fiducials (fit_params example_integer) (fit_keys example_integer) = Inr [PyInt 70]"
    by (simp add: m dict_get_def list_get_def)
  have a: "np_array [PyInt 70] = Int_array [70]"
    by (simp add: np_array_def)
  have "[0..<nat (n_walkers example_integer)] \<noteq> []"
    by (simp add: m)
  then have "generate_initial_pos example_randn example_integer = Inl UFuncTypeError"
    unfolding generate_initial_pos_def by (rule initial_pos_loop_int_array [OF f a])
  then show ?thesis
    using f by (simp add: m)
qed

section \<open>get_bf_params\<close>

lemma lp_less_irrefl: "\<not> lp_less a a"
  by (cases a) simp_all

lemma lp_less_trans: "lp_less a b \<Longrightarrow> lp_less b c \<Longrightarrow> lp_less a c"
  by (cases a; cases b; cases c) simp_all

lemma lp_le_less_trans: "lp_le a b \<Longrightarrow> lp_less b c \<Longrightarrow> lp_less a c"
  by (cases a; cases b; cases c) (simp_all add: lp_le_def)

lemma lp_less_imp_le: "lp_less a b \<Longrightarrow> lp_le a b"
  by (cases a; cases b) (simp_all add: lp_le_def)

lemma lp_le_refl: "lp_le a a"
  by (simp add: lp_le_def lp_less_irrefl)

text \<open>
  The scan keeps the first index of a maximum of the part it has seen: \<open>pre\<close> is that part,
  \<open>b\<close> the index kept and \<open>v\<close> its value.
\<close>

lemma argmax_from_first_max:
  assumes "b < length pre" and "pre ! b = v"
      and "\<forall>j<length pre. lp_le (pre ! j) v"
      and "\<forall>j<b. lp_less (pre ! j) v"
  shows "argmax_from (length pre) b v xs < length (pre @ xs) \<and>
         (\<forall>j<length (pre @ xs). lp_le ((pre @ xs) ! j) ((pre @ xs) ! argmax_from (length pre) b v xs)) \<and>
         (\<forall>j<argmax_from (length pre) b v xs.
            lp_less ((pre @ xs) ! j) ((pre @ xs) ! argmax_from (length pre) b v xs))"
  using assms
proof (induction xs arbitrary: pre b v)
  case Nil
  then show ?case by simp
next
  case (Cons x xs)
  show ?case
  proof (cases "lp_less v x")
    case True
    have 1: "length pre < length (pre @ [x])" by simp
    have 2: "(pre @ [x]) ! length pre = x" by simp
    have 3: "\<forall>j<length (pre @ [x]). lp_le ((pre @ [x]) ! j) x"
      using Cons.prems(3) True
      by (auto simp: nth_append less_Suc_eq lp_le_refl intro: lp_less_imp_le lp_le_less_trans)
    have 4: "\<forall>j<length pre. lp_less ((pre @ [x]) ! j) x"
      using Cons.prems(3) True by (auto simp: nth_append intro: lp_le_less_trans)
    show ?thesis
      using Cons.IH [of "length pre" "pre @ [x]" x, OF 1 2 3 4] True by simp
  next
    case False
    have 1: "b < length (pre @ [x])" using Cons.prems(1) by simp
    have 2: "(pre @ [x]) ! b = v" using Cons.prems(1,2) by (simp add: nth_append)
    have 3: "\<forall>j<length (pre @ [x]). lp_le ((pre @ [x]) ! j) v"
      using Cons.prems(3) False by (auto simp: nth_append less_Suc_eq lp_le_def)
    have 4: "\<forall>j<b. lp_less ((pre @ [x]) ! j) v"
      using Cons.prems(1,4) by (auto simp: nth_append)
    show ?thesis
      using Cons.IH [of b "pre @ [x]" v, OF 1 2 3 4] False by simp
  qed
qed

lemma argmax_first_max:
  assumes "xs \<noteq> []"
  shows "\<exists>i. argmax xs = Inr i \<and> i < length xs \<and> (\<forall>j<length xs. lp_le (xs ! j) (xs ! i)) \<and>
           (\<forall>j<i. lp_less (xs ! j) (xs ! i))"
proof -
  obtain x ys where xs: "xs = x # ys"
    using assms by (cases xs) auto
  have "argmax_from (length [x]) 0 x ys < length ([x] @ ys) \<and>
         (\<forall>j<length ([x] @ ys). lp_le (([x] @ ys) ! j) (([x] @ ys) ! argmax_from (length [x]) 0 x ys)) \<and>
         (\<forall>j<argmax_from (length [x]) 0 x ys.
            lp_less (([x] @ ys) ! j) (([x] @ ys) ! argmax_from (length [x]) 0 x ys))"
    by (rule argmax_from_first_max) (simp_all add: lp_le_refl)
  then show ?thesis
    by (simp add: argmax_def xs)
qed

lemma dict_set_fresh: "k \<notin> set (dict_keys d) \<Longrightarrow> dict_set k v d = d @ [(k, v)]"
  by (induction d) (auto simp: dict_keys_def)

lemma bf_params_loop_zip:
  assumes "distinct ks" and "set ks \<inter> set (dict_keys bf) = {}" and "i + length ks \<le> length row"
  shows "bf_params_loop row i ks bf = Inr (bf @ zip ks (drop i row))"
  using assms
proof (induction ks arbitrary: i bf)
  case Nil
  then show ?case by simp
next
  case (Cons k ks)
  have i: "i < length row" using Cons.prems(3) by simp
  have fresh: "dict_set k (row ! i) bf = bf @ [(k, row ! i)]"
    using Cons.prems(2) by (simp add: dict_set_fresh)
  have "bf_params_loop row (Suc i) ks (bf @ [(k, row ! i)])
      = Inr ((bf @ [(k, row ! i)]) @ zip ks (drop (Suc i) row))"
    using Cons.prems by (intro Cons.IH) (auto simp: dict_keys_def)
  then show ?case
    using i fresh by (simp add: list_get_def Cons_nth_drop_Suc [symmetric])
qed

text \<open>
  C8. When the sampler holds a non-empty flattened log-probability array and a flattened chain
  with as many rows, each as long as the fit-key list, \<open>get_bf_params\<close> returns the mapping
  from the fit keys, in their order, to the components of the chain row at the index
  \<open>argmax\<close> finds, which is the first index where the log-probability is maximal.
\<close>

theorem get_bf_params_argmax:
  assumes "sampler m = Some s"
      and "flatlnprobability s \<noteq> []"
      and "length (flatchain s) = length (flatlnprobability s)"
      and "\<And>row. row \<in> set (flatchain s) \<Longrightarrow> length row = length (fit_keys m)"
      and "distinct (fit_keys m)"
  shows "\<exists>i. argmax (flatlnprobability s) = Inr i \<and> i < length (flatlnprobability s) \<and>
           (\<forall>j<length (flatlnprobability s).
              lp_le (flatlnprobability s ! j) (flatlnprobability s ! i)) \<and>
           (\<forall>j<i. lp_less (flatlnprobability s ! j) (flatlnprobability s ! i)) \<and>
           get_bf_params m = Inr (zip (fit_keys m) (flatchain s ! i))"
proof -
  obtain i where i: "argmax (flatlnprobability s) = Inr i" "i < length (flatlnprobability s)"
      "\<forall>j<length (flatlnprobability s). lp_le (flatlnprobability s ! j) (flatlnprobability s ! i)"
      "\<forall>j<i. lp_less (flatlnprobability s ! j) (flatlnprobability s ! i)"
    using argmax_first_max [OF assms(2)] by blast
  have row: "length (flatchain s ! i) = length (fit_keys m)"
    using assms(3,4) i(2) by simp
  have "bf_params_loop (flatchain s ! i) 0 (fit_keys m) []
      = Inr ([] @ zip (fit_keys m) (drop 0 (flatchain s ! i)))"
    by (rule bf_params_loop_zip) (simp_all add: assms(5) row dict_keys_def)
  then have "get_bf_params m = Inr (zip (fit_keys m) (flatchain s ! i))"
    using i(1,2) assms(1,3) by (simp add: get_bf_params_def list_get_def)
  then show ?thesis
    using i by blast
qed

theorem get_bf_params_argmax_witness:
  "get_bf_params (example_mcmc\<lparr>sampler := Some example_sampler\<rparr>)
     = Inr [(''H0'', 68), (''ns'', 97 / 100)]"
proof -
  let ?m = "example_mcmc\<lparr>sampler := Some example_sampler\<rparr>"
  have 1: "sampler ?m = Some example_sampler" by simp
  have 2: "flatlnprobability example_sampler \<noteq> []" by (simp add: example_sampler_def)
  have 3: "length (flatchain example_sampler) = length (flatlnprobability example_sampler)"
    by (simp add: example_sampler_def)
  have 4: "\<And>row. row \<in> set (flatchain example_sampler) \<Longrightarrow> length row = length (fit_keys ?m)"
    by (auto simp: example_sampler_def example_mcmc_eq)
  have 5: "distinct (fit_keys ?m)" by (simp add: example_mcmc_eq)
  have a: "argmax (flatlnprobability example_sampler) = Inr 1"
    by (simp add: argmax_def example_sampler_def)
  obtain i where "argmax (flatlnprobability example_sampler) = Inr i"
      and "get_bf_params ?m = Inr (zip (fit_keys ?m) (flatchain example_sampler ! i))"
    using get_bf_params_argmax [OF 1 2 3 4 5] by blast
  then show ?thesis
    using a by (simp add: example_sampler_def example_mcmc_eq)
qed

section \<open>run\<close>

lemma initial_pos_loop_length:
  "initial_pos_loop randn m is = Inr pos0 \<Longrightarrow> length pos0 = length is"
  by (induction "is" arbitrary: pos0) (auto split: sum.splits)

lemma generate_initial_pos_length:
  "generate_initial_pos randn m = Inr pos0 \<Longrightarrow> length pos0 = nat (n_walkers m)"
  using initial_pos_loop_length [of randn m "[0..<nat (n_walkers m)]" pos0]
  by (simp add: generate_initial_pos_def)

lemma run_setup_events:
  assumes "run_setup em randn resume m = (r, evs)"
  shows "set evs \<subseteq> {HDFBackend_open (backend_file m), Backend_get_chain,
                     Backend_reset (n_walkers m) (length (fit_keys m))}"
    and "\<not> resume \<Longrightarrow> HDFBackend em (backend_file m) = Inr b \<Longrightarrow>
           Backend_reset (n_walkers m) (length (fit_keys m)) \<in> set evs"
    and "\<not> resume \<Longrightarrow> r = Inr (b', pos0) \<Longrightarrow> generate_initial_pos randn m = Inr pos0"
  using assms
  by (auto simp: run_setup_def Let_def split: sum.splits if_splits)

lemma walkers_corrected_simps:
  "n_walkers (walkers_corrected m) = max (n_walkers m) (2 * int (length (fit_keys m)))"
  "fit_keys (walkers_corrected m) = fit_keys m"
  "sampler (walkers_corrected m) = sampler m"
  "backend_file (walkers_corrected m) = backend_file m"
  by (simp_all add: walkers_corrected_def)

lemma run_eq:
  "run em randn N resume m =
     (case run_setup em randn resume (walkers_corrected m) of
        (Inl e, evs) \<Rightarrow> ((Inl e, walkers_corrected m), evs)
      | (Inr (backend, pos0), evs) \<Rightarrow>
          (case EnsembleSampler em (n_walkers (walkers_corrected m)) (length (fit_keys m)) backend of
             Inl e \<Rightarrow> ((Inl e, walkers_corrected m),
                       evs @ [EnsembleSampler_new (n_walkers (walkers_corrected m)) (length (fit_keys m))])
           | Inr s \<Rightarrow>
               if N > 0 then
                 (case run_mcmc em s pos0 N (cosmology (walkers_corrected m)) of
                    (raised, s', c') \<Rightarrow>
                      ((case raised of None \<Rightarrow> Inr (Some s') | Some e \<Rightarrow> Inl e,
                        walkers_corrected m\<lparr>sampler := Some s', cosmology := c'\<rparr>),
                       evs @ [EnsembleSampler_new (n_walkers (walkers_corrected m)) (length (fit_keys m)),
                              Run_mcmc pos0 N]))
               else
                 ((Inr (sampler m), walkers_corrected m),
                  evs @ [EnsembleSampler_new (n_walkers (walkers_corrected m)) (length (fit_keys m))])))"
  by (auto simp: run_def Let_def walkers_corrected_def split: sum.splits prod.splits option.splits)

lemma run_n_walkers:
  "n_walkers (snd (fst (run em randn N resume m))) = max (n_walkers m) (2 * int (length (fit_keys m)))"
  by (simp add: run_eq walkers_corrected_simps split: sum.splits prod.splits option.splits)

lemma run_events:
  assumes "run em randn N resume m = ((res, m'), evs)"
  shows "set evs \<subseteq> {HDFBackend_open (backend_file m), Backend_get_chain,
                     Backend_reset (n_walkers m') (length (fit_keys m)),
                     EnsembleSampler_new (n_walkers m') (length (fit_keys m))} \<union>
                    {Run_mcmc pos0 N | pos0. 0 < N \<and> (\<not> resume \<longrightarrow> length pos0 = nat (n_walkers m'))}"
proof -
  obtain r evs0 where s: "run_setup em randn resume (walkers_corrected m) = (r, evs0)"
    by (cases "run_setup em randn resume (walkers_corrected m)")
  have nw: "n_walkers m' = n_walkers (walkers_corrected m)"
    using run_n_walkers [of em randn N resume m] by (simp add: assms walkers_corrected_simps)
  have evs0: "set evs0 \<subseteq> {HDFBackend_open (backend_file m), Backend_get_chain,
                     Backend_reset (n_walkers m') (length (fit_keys m))}"
    using run_setup_events(1) [OF s] by (simp add: walkers_corrected_simps nw)
  have len: "length pos0 = nat (n_walkers m')" if "\<not> resume" "r = Inr (b, pos0)" for b pos0
    using generate_initial_pos_length [OF run_setup_events(3) [OF s that]] by (simp add: nw)
  show ?thesis
    using assms evs0 len unfolding run_eq s nw
    by (auto split: sum.splits prod.splits if_splits)
qed

lemma run_returns_sampler_event:
  assumes "run em randn N resume m = ((Inr r, m'), evs)"
  shows "EnsembleSampler_new (n_walkers m') (length (fit_keys m)) \<in> set evs"
  using assms unfolding run_eq
  by (auto simp: walkers_corrected_simps split: sum.splits prod.splits if_splits option.splits)



lemma example_fresh_eq:
  "example_fresh = \<lparr> n_walkers = 2, initial_delta = 0, sampler = None,
       cosmology = Some [(''tau'', PNum (PyFloat (6 / 100)))],
       base_params = [(''tau'', PNum (PyFloat (6 / 100)))],
       fit_params = [(''H0'', [PyInt 60, PyInt 70, PyInt 80]), (''ns'', [PyFloat (9 / 10), PyFloat (96 / 100), PyInt 1])],
       fit_keys = [''H0'', ''ns''], backend_file = None,
       likelihoods = [example_like], counter = None \<rparr>"
  by (simp add: example_fresh_def example_ready_eq)

lemma example_initial_pos:
  "generate_initial_pos example_randn (example_fresh\<lparr>counter := Some 0, n_walkers := 4\<rparr>)
     = Inr [[70, 96 / 100], [70, 96 / 100], [70, 96 / 100], [70, 96 / 100]]"
proof -
  have "[0..<nat 4] = [0, 1, 2, 3]"
    by (simp add: upt_rec [of _ "nat 4"] eval_nat_numeral)
  then show ?thesis
    by (simp add: generate_initial_pos_def example_fresh_eq dict_get_def list_get_def
        np_array_def)
qed

lemma example_run_10:
  "run example_emcee example_randn 10 False example_fresh =
     ((Inr (Some example_sampler),
       example_fresh\<lparr>counter := Some 0, n_walkers := 4, sampler := Some example_sampler\<rparr>),
      [HDFBackend_open None, Backend_reset 4 2, EnsembleSampler_new 4 2,
       Run_mcmc [[70, 96 / 100], [70, 96 / 100], [70, 96 / 100], [70, 96 / 100]] 10])"
  using example_initial_pos
  by (simp add: run_def run_setup_def Let_def example_emcee_def example_fresh_eq)


lemma run_setup_fresh:
  assumes "run_setup em randn False m = (Inr (backend, pos0), evs)"
  shows "\<exists>b. HDFBackend em (backend_file m) = Inr b \<and>
             backend_reset em b (n_walkers m) (length (fit_keys m)) = Inr backend"
  using assms by (auto simp: run_setup_def Let_def split: sum.splits)


text \<open>
  A call that returns has constructed the sampler with the stored walker count, on the
  backend that, on a fresh start, the reset with that count returned.
\<close>

lemma run_returns_calls:
  assumes "run em randn N resume m = ((Inr r, m'), evs)"
  shows "\<exists>backend s. EnsembleSampler em (n_walkers m') (length (fit_keys m)) backend = Inr s \<and>
           (\<not> resume \<longrightarrow>
              (\<exists>b. HDFBackend em (backend_file m) = Inr b \<and>
                   backend_reset em b (n_walkers m') (length (fit_keys m)) = Inr backend))"
proof -
  have nw: "n_walkers m' = n_walkers (walkers_corrected m)"
    using run_n_walkers [of em randn N resume m] by (simp add: assms walkers_corrected_simps)
  obtain backend pos0 evs0 s where
    s: "run_setup em randn resume (walkers_corrected m) = (Inr (backend, pos0), evs0)" and
    e: "EnsembleSampler em (n_walkers (walkers_corrected m)) (length (fit_keys m)) backend = Inr s"
    using assms unfolding run_eq
    by (auto split: sum.splits prod.splits if_splits option.splits)
  have "\<exists>b. HDFBackend em (backend_file m) = Inr b \<and>
           backend_reset em b (n_walkers m') (length (fit_keys m)) = Inr backend" if "\<not> resume"
    using run_setup_fresh [of em randn "walkers_corrected m" backend pos0 evs0] s that
    by (simp add: walkers_corrected_simps nw)
  then show ?thesis
    using e nw by auto
qed


text \<open>
  C6. After \<open>run\<close>, whatever its outcome, the stored walker count is twice the number of fit
  keys when the count before was smaller, and is unchanged when it was at least that. That
  count is the one used: every backend reset and every sampler construction of the call
  carries it, a fresh start hands the sampler one initial position per walker, and a call
  that returns has constructed the sampler with it: the call of \<open>EnsembleSampler\<close> with
  that count returned.
\<close>

theorem run_walker_count:
  assumes "run em randn N resume m = ((res, m'), evs)"
  shows "(n_walkers m < 2 * int (length (fit_keys m)) \<longrightarrow>
            n_walkers m' = 2 * int (length (fit_keys m))) \<and>
         (2 * int (length (fit_keys m)) \<le> n_walkers m \<longrightarrow> n_walkers m' = n_walkers m) \<and>
         (\<forall>nw nd. Backend_reset nw nd \<in> set evs \<or> EnsembleSampler_new nw nd \<in> set evs \<longrightarrow>
            nw = n_walkers m' \<and> nd = length (fit_keys m)) \<and>
         (\<forall>pos0 n. \<not> resume \<and> Run_mcmc pos0 n \<in> set evs \<longrightarrow> length pos0 = nat (n_walkers m')) \<and>
         ((\<exists>r. res = Inr r) \<longrightarrow>
            EnsembleSampler_new (n_walkers m') (length (fit_keys m)) \<in> set evs) \<and>
         ((\<exists>r. res = Inr r) \<longrightarrow>
            (\<exists>backend s.
               EnsembleSampler em (n_walkers m') (length (fit_keys m)) backend = Inr s))"
proof -
  have call: "(\<exists>r. res = Inr r) \<longrightarrow>
      (\<exists>backend s. EnsembleSampler em (n_walkers m') (length (fit_keys m)) backend = Inr s)"
    using run_returns_calls [of em randn N resume m _ m' evs] assms by blast
  have nw: "n_walkers m' = max (n_walkers m) (2 * int (length (fit_keys m)))"
    using run_n_walkers [of em randn N resume m] by (simp add: assms)
  have ev: "\<forall>nw nd. Backend_reset nw nd \<in> set evs \<or> EnsembleSampler_new nw nd \<in> set evs \<longrightarrow>
            nw = n_walkers m' \<and> nd = length (fit_keys m)"
    using run_events [OF assms] by auto
  have pos: "\<forall>pos0 n. \<not> resume \<and> Run_mcmc pos0 n \<in> set evs \<longrightarrow> length pos0 = nat (n_walkers m')"
    using run_events [OF assms] by auto
  have ret: "(\<exists>r. res = Inr r) \<longrightarrow>
      EnsembleSampler_new (n_walkers m') (length (fit_keys m)) \<in> set evs"
    using run_returns_sampler_event assms by blast
  have small: "n_walkers m < 2 * int (length (fit_keys m)) \<longrightarrow>
      n_walkers m' = 2 * int (length (fit_keys m))"
    and large: "2 * int (length (fit_keys m)) \<le> n_walkers m \<longrightarrow> n_walkers m' = n_walkers m"
    using nw by simp_all
  show ?thesis
    using small large ev pos ret call by blast
qed

theorem run_walker_count_witness:
  "n_walkers example_fresh = 2 \<and> length (fit_keys example_fresh) = 2 \<and>
   n_walkers (snd (fst (run example_emcee example_randn 10 False example_fresh))) = 4 \<and>
   EnsembleSampler_new 4 2 \<in> set (snd (run example_emcee example_randn 10 False example_fresh))"
proof -
  let ?r = "run example_emcee example_randn 10 False example_fresh"
  have eq: "?r = ((fst (fst ?r), snd (fst ?r)), snd ?r)"
    by simp
  have nw: "n_walkers example_fresh = 2" "length (fit_keys example_fresh) = 2"
    by (simp_all add: example_fresh_eq)
  have ret: "\<exists>r. fst (fst ?r) = Inr r"
    by (simp add: example_run_10)
  note count = run_walker_count [OF eq]
  have small: "n_walkers example_fresh < 2 * int (length (fit_keys example_fresh))"
    by (simp add: nw)
  have a: "n_walkers (snd (fst ?r)) = 2 * int (length (fit_keys example_fresh))"
    using count small by blast
  have b: "EnsembleSampler_new (n_walkers (snd (fst ?r))) (length (fit_keys example_fresh))
      \<in> set (snd ?r)"
    using count ret by blast
  show ?thesis
    using b by (simp add: a nw)
qed



end
